theory Spec2Isabelle
  imports Main "HOL-Library.AList"
begin

section \<open>Values read from the JSON input files\<close>

text \<open>
  \<^verbatim>\<open>json.load\<close> turns a file into Python values: \<^verbatim>\<open>None\<close>, booleans, numbers,
  strings, lists and dicts.  A dict is an association list in insertion order whose
  keys are pairwise different (the parser keeps one binding per key); a lookup reads
  the binding of the key.  Numbers are integers here: no function of the program
  looks at a number beyond asking whether it is zero.

  A Python \<^verbatim>\<open>str\<close> is a \<^typ>\<open>string\<close>.  The character class used by
  \<^verbatim>\<open>str.strip\<close> and the case mapping of \<^verbatim>\<open>str.lower\<close> are the ASCII ones: text
  outside ASCII is kept as it is.
\<close>

datatype json =
    JNull
  | JBool bool
  | JNum int
  | JStr string
  | JArr "json list"
  | JObj "(string \<times> json) list"

type_synonym pydict = "(string \<times> json) list"

text \<open>\<^verbatim>\<open>d.get(k)\<close>: the value bound to \<open>k\<close>, \<^verbatim>\<open>None\<close> when there is none.\<close>

definition dict_get :: "pydict \<Rightarrow> string \<Rightarrow> json" where
  "dict_get d k = (case map_of d k of None \<Rightarrow> JNull | Some v \<Rightarrow> v)"

text \<open>Python's truth value of a JSON value, as \<^verbatim>\<open>x or {}\<close> tests it.\<close>

fun truthy :: "json \<Rightarrow> bool" where
  "truthy JNull = False"
| "truthy (JBool b) = b"
| "truthy (JNum n) = (n \<noteq> 0)"
| "truthy (JStr s) = (s \<noteq> [])"
| "truthy (JArr xs) = (xs \<noteq> [])"
| "truthy (JObj d) = (d \<noteq> [])"

subsection \<open>\<^verbatim>\<open>str.strip\<close> and \<^verbatim>\<open>str.lower\<close>\<close>

definition py_isspace :: "char \<Rightarrow> bool" where
  "py_isspace c =
     (let n = (of_char c :: nat) in (9 \<le> n \<and> n \<le> 13) \<or> (28 \<le> n \<and> n \<le> 32))"

definition py_strip :: "string \<Rightarrow> string" where
  "py_strip s = rev (dropWhile py_isspace (rev (dropWhile py_isspace s)))"

definition lower_char :: "char \<Rightarrow> char" where
  "lower_char c =
     (let n = (of_char c :: nat) in if 65 \<le> n \<and> n \<le> 90 then char_of (n + 32) else c)"

definition py_lower :: "string \<Rightarrow> string" where
  "py_lower s = map lower_char s"

section \<open>Availability coercion\<close>

text \<open>
  \<^verbatim>\<open>_coerce_available_to_bool(value)\<close>: a string is compared, stripped and in lower
  case, with the two word lists; a string in neither list falls through to the
  boolean test and then to the conservative \<^verbatim>\<open>False\<close>.
\<close>

definition yes_words :: "string list" where
  "yes_words = [''yes'', ''true'', ''y'', ''1'']"

definition no_words :: "string list" where
  "no_words = [''no'', ''false'', ''n'', ''0'']"

fun coerce_available_to_bool :: "json \<Rightarrow> bool" where
  "coerce_available_to_bool (JStr s) =
     (let lowered = py_lower (py_strip s) in
      if lowered \<in> set yes_words then True
      else if lowered \<in> set no_words then False
      else False)"
| "coerce_available_to_bool (JBool b) = b"
| "coerce_available_to_bool v = False"

section \<open>The pydantic models\<close>

text \<open>
  A \<^verbatim>\<open>ValidationError\<close> lists, in field order, the place and the kind of every
  field error of one model.
\<close>

datatype err_kind = missing | string_type | value_error | model_type | bool_type

type_synonym verr = "string list \<times> err_kind"

datatype error =
    FileNotFoundError string
  | JSONDecodeError string
  | ValueError string
  | AttributeError
  | ValidationError string "verr list"
  | PatternError string
  | TemplateNotFound

record AvailabilityBool =
  available :: bool

record UserName =
  un_given :: string
  un_family :: string

record Contact =
  ct_email :: string

record Course =
  c_id :: string
  c_courseId :: string
  c_name :: string
  c_description :: "string option"
  c_availability :: AvailabilityBool

record User =
  u_id :: string
  u_userName :: string
  u_name :: UserName
  u_contact :: Contact
  u_availability :: AvailabilityBool

record Enrollment =
  e_id :: string
  e_userId :: string
  e_courseId :: string
  e_role :: string
  e_availability :: AvailabilityBool

definition ALLOWED_ROLES :: "string set" where
  "ALLOWED_ROLES =
     {''Instructor'', ''TeachingAssistant'', ''Student'', ''Grader'', ''Observer''}"

subsection \<open>Field validation\<close>

text \<open>
  A required \<^verbatim>\<open>str\<close> field with the stripping \<^verbatim>\<open>mode="before"\<close> validator: a
  string is stripped and accepted, any other value (also \<^verbatim>\<open>None\<close>) is no string,
  and an absent key is a missing field.
\<close>

definition str_field :: "string list \<Rightarrow> pydict \<Rightarrow> string \<Rightarrow> verr list + string" where
  "str_field loc d k =
     (case map_of d k of
        None \<Rightarrow> Inl [(loc @ [k], missing)]
      | Some (JStr s) \<Rightarrow> Inr (py_strip s)
      | Some _ \<Rightarrow> Inl [(loc @ [k], string_type)])"

text \<open>\<^verbatim>\<open>description: Optional[str] = None\<close>.\<close>

definition opt_str_field ::
  "string list \<Rightarrow> pydict \<Rightarrow> string \<Rightarrow> verr list + string option" where
  "opt_str_field loc d k =
     (case map_of d k of
        None \<Rightarrow> Inr None
      | Some JNull \<Rightarrow> Inr None
      | Some (JStr s) \<Rightarrow> Inr (Some (py_strip s))
      | Some _ \<Rightarrow> Inl [(loc @ [k], string_type)])"

text \<open>
  \<^verbatim>\<open>Contact._strip_and_validate_email\<close>: the value is stripped when it is a string,
  and refused when it is no string or has no \<^verbatim>\<open>@\<close>.
\<close>

definition email_field :: "string list \<Rightarrow> pydict \<Rightarrow> verr list + string" where
  "email_field loc d =
     (case map_of d ''email'' of
        None \<Rightarrow> Inl [(loc @ [''email''], missing)]
      | Some (JStr s) \<Rightarrow>
          (if CHR ''@'' \<in> set (py_strip s) then Inr (py_strip s)
           else Inl [(loc @ [''email''], value_error)])
      | Some _ \<Rightarrow> Inl [(loc @ [''email''], value_error)])"

text \<open>
  \<^verbatim>\<open>availability: AvailabilityBool\<close>.  Every loader has replaced the entry by
  \<^verbatim>\<open>{"available": b}\<close> with a Python boolean \<open>b\<close> before the model is built;
  pydantic's conversion of other values to \<^verbatim>\<open>bool\<close> is not part of the model and
  any other value is reported as \<open>bool_type\<close>.
\<close>

definition availability_field :: "pydict \<Rightarrow> verr list + AvailabilityBool" where
  "availability_field d =
     (case map_of d ''availability'' of
        None \<Rightarrow> Inl [([''availability''], missing)]
      | Some (JObj a) \<Rightarrow>
          (case map_of a ''available'' of
             None \<Rightarrow> Inl [([''availability'', ''available''], missing)]
           | Some (JBool b) \<Rightarrow> Inr \<lparr>available = b\<rparr>
           | Some _ \<Rightarrow> Inl [([''availability'', ''available''], bool_type)])
      | Some _ \<Rightarrow> Inl [([''availability''], model_type)])"

definition errs :: "verr list + 'a \<Rightarrow> verr list" where
  "errs r = (case r of Inl es \<Rightarrow> es | Inr _ \<Rightarrow> [])"

definition UserName_validate :: "string list \<Rightarrow> pydict \<Rightarrow> verr list + UserName" where
  "UserName_validate loc d =
     (case (str_field loc d ''given'', str_field loc d ''family'') of
        (Inr g, Inr f) \<Rightarrow> Inr \<lparr>un_given = g, un_family = f\<rparr>
      | (r1, r2) \<Rightarrow> Inl (errs r1 @ errs r2))"

definition Contact_validate :: "string list \<Rightarrow> pydict \<Rightarrow> verr list + Contact" where
  "Contact_validate loc d =
     (case email_field loc d of
        Inr e \<Rightarrow> Inr \<lparr>ct_email = e\<rparr>
      | Inl es \<Rightarrow> Inl es)"

text \<open>A field whose type is a model: a dict is validated as that model.\<close>

definition model_field ::
  "(string list \<Rightarrow> pydict \<Rightarrow> verr list + 'a) \<Rightarrow> pydict \<Rightarrow> string \<Rightarrow> verr list + 'a" where
  "model_field validate d k =
     (case map_of d k of
        None \<Rightarrow> Inl [([k], missing)]
      | Some (JObj m) \<Rightarrow> validate [k] m
      | Some _ \<Rightarrow> Inl [([k], model_type)])"

subsection \<open>The three record models\<close>

definition Course_validate :: "pydict \<Rightarrow> error + Course" where
  "Course_validate d =
     (case (str_field [] d ''id'', str_field [] d ''courseId'', str_field [] d ''name'',
            opt_str_field [] d ''description'', availability_field d) of
        (Inr i, Inr ci, Inr n, Inr de, Inr a) \<Rightarrow>
          Inr \<lparr>c_id = i, c_courseId = ci, c_name = n, c_description = de,
               c_availability = a\<rparr>
      | (r1, r2, r3, r4, r5) \<Rightarrow>
          Inl (ValidationError ''Course''
                 (errs r1 @ errs r2 @ errs r3 @ errs r4 @ errs r5)))"

definition User_validate :: "pydict \<Rightarrow> error + User" where
  "User_validate d =
     (case (str_field [] d ''id'', str_field [] d ''userName'',
            model_field UserName_validate d ''name'',
            model_field Contact_validate d ''contact'', availability_field d) of
        (Inr i, Inr un, Inr n, Inr c, Inr a) \<Rightarrow>
          Inr \<lparr>u_id = i, u_userName = un, u_name = n, u_contact = c,
               u_availability = a\<rparr>
      | (r1, r2, r3, r4, r5) \<Rightarrow>
          Inl (ValidationError ''User''
                 (errs r1 @ errs r2 @ errs r3 @ errs r4 @ errs r5)))"

text \<open>
  \<^verbatim>\<open>Enrollment._warn_unknown_role\<close> runs on a role that has passed the string
  check (so on the stripped string): it logs a warning for a role outside
  \<open>ALLOWED_ROLES\<close> and returns the value.  The log lines are the first component.
\<close>

definition warn_unknown_role :: "string \<Rightarrow> string list \<times> string" where
  "warn_unknown_role v =
     (if v \<notin> ALLOWED_ROLES then [''Unknown role: '' @ v] else [], v)"

definition role_field :: "pydict \<Rightarrow> string list \<times> (verr list + string)" where
  "role_field d =
     (case str_field [] d ''role'' of
        Inr v \<Rightarrow> (fst (warn_unknown_role v), Inr (snd (warn_unknown_role v)))
      | Inl es \<Rightarrow> ([], Inl es))"

definition Enrollment_validate :: "pydict \<Rightarrow> string list \<times> (error + Enrollment)" where
  "Enrollment_validate d =
     (fst (role_field d),
      (case (str_field [] d ''id'', str_field [] d ''userId'', str_field [] d ''courseId'',
             snd (role_field d), availability_field d) of
         (Inr i, Inr ui, Inr ci, Inr r, Inr a) \<Rightarrow>
           Inr \<lparr>e_id = i, e_userId = ui, e_courseId = ci, e_role = r,
                e_availability = a\<rparr>
       | (r1, r2, r3, r4, r5) \<Rightarrow>
           Inl (ValidationError ''Enrollment''
                  (errs r1 @ errs r2 @ errs r3 @ errs r4 @ errs r5))))"

section \<open>Loading\<close>

text \<open>
  What \<^verbatim>\<open>json.load\<close> makes of a data file: text that is no JSON, a JSON value that
  is no array, or an array of objects.  \<^verbatim>\<open>_read_json_array\<close> declares its result as
  \<^verbatim>\<open>List[dict]\<close>; an array with an element that is no object is outside the model.
\<close>

datatype content = NotJson | NotArray | Records "pydict list"

definition read_json_array :: "(string \<Rightarrow> content option) \<Rightarrow> string \<Rightarrow> error + pydict list" where
  "read_json_array dir file =
     (case dir file of
        None \<Rightarrow> Inl (FileNotFoundError file)
      | Some NotJson \<Rightarrow> Inl (JSONDecodeError file)
      | Some NotArray \<Rightarrow> Inl (ValueError file)
      | Some (Records raw) \<Rightarrow> Inr raw)"

text \<open>
  The body of the normalising loop, the same in the three loaders:
  \<^verbatim>\<open>avail = (item_copy.get("availability") or {}).get("available")\<close> and
  \<^verbatim>\<open>item_copy["availability"] = {"available": _coerce_available_to_bool(avail)}\<close>.
  A value that is true in Python and is no dict has no \<^verbatim>\<open>get\<close>.
\<close>

definition normalize_item :: "pydict \<Rightarrow> error + pydict" where
  "normalize_item item =
     (let a = dict_get item ''availability'';
          a' = (if truthy a then a else JObj [])
      in case a' of
           JObj d \<Rightarrow>
             Inr (AList.update ''availability''
                    (JObj [(''available'',
                            JBool (coerce_available_to_bool (dict_get d ''available'')))])
                    item)
         | _ \<Rightarrow> Inl AttributeError)"

text \<open>A loop or comprehension that stops at the first exception.\<close>

fun try_map :: "('a \<Rightarrow> error + 'b) \<Rightarrow> 'a list \<Rightarrow> error + 'b list" where
  "try_map f [] = Inr []"
| "try_map f (x # xs) =
     (case f x of
        Inl e \<Rightarrow> Inl e
      | Inr y \<Rightarrow> (case try_map f xs of Inl e \<Rightarrow> Inl e | Inr ys \<Rightarrow> Inr (y # ys)))"

definition load_courses :: "(string \<Rightarrow> content option) \<Rightarrow> error + Course list" where
  "load_courses dir =
     (case read_json_array dir ''courses.json'' of
        Inl e \<Rightarrow> Inl e
      | Inr raw \<Rightarrow>
          (case try_map normalize_item raw of
             Inl e \<Rightarrow> Inl e
           | Inr normalized \<Rightarrow> try_map Course_validate normalized))"

definition load_users :: "(string \<Rightarrow> content option) \<Rightarrow> error + User list" where
  "load_users dir =
     (case read_json_array dir ''users.json'' of
        Inl e \<Rightarrow> Inl e
      | Inr raw \<Rightarrow>
          (case try_map normalize_item raw of
             Inl e \<Rightarrow> Inl e
           | Inr normalized \<Rightarrow> try_map User_validate normalized))"

text \<open>Building the enrollments one after the other, with the lines they log.\<close>

fun validate_enrollments :: "pydict list \<Rightarrow> string list \<times> (error + Enrollment list)" where
  "validate_enrollments [] = ([], Inr [])"
| "validate_enrollments (d # ds) =
     (case Enrollment_validate d of
        (w, Inl e) \<Rightarrow> (w, Inl e)
      | (w, Inr x) \<Rightarrow>
          (case validate_enrollments ds of
             (ws, Inl e) \<Rightarrow> (w @ ws, Inl e)
           | (ws, Inr xs) \<Rightarrow> (w @ ws, Inr (x # xs))))"

definition load_enrollments ::
  "(string \<Rightarrow> content option) \<Rightarrow> string list \<times> (error + Enrollment list)" where
  "load_enrollments dir =
     (case read_json_array dir ''enrollments.json'' of
        Inl e \<Rightarrow> ([], Inl e)
      | Inr raw \<Rightarrow>
          (case try_map normalize_item raw of
             Inl e \<Rightarrow> ([], Inl e)
           | Inr normalized \<Rightarrow> validate_enrollments normalized))"

section \<open>Frames and the join\<close>

text \<open>
  A DataFrame is the list of its rows, a row a record of its columns.  The columns of
  the three input frames carry a prefix; the joined frame has the names of the source.
\<close>

record course_row =
  cr_courseInternalId :: string
  cr_courseId :: string
  cr_courseName :: string
  cr_term :: string
  cr_courseAvailable :: bool

record user_row =
  ur_userId :: string
  ur_userName :: string
  ur_given :: string
  ur_family :: string
  ur_email :: string
  ur_userAvailable :: bool

record enrollment_row =
  er_enrollmentId :: string
  er_userId :: string
  er_courseInternalId :: string
  er_role :: string
  er_enrollmentAvailable :: bool

record joined_row =
  enrollmentId :: string
  userId :: string
  courseInternalId :: string
  role :: string
  enrollmentAvailable :: bool
  userName :: string
  given :: string
  family :: string
  email :: string
  userAvailable :: bool
  courseId :: string
  courseName :: string
  term_col :: string
  courseAvailable :: bool
  userFullName :: string
  courseLabel :: string

text \<open>\<^verbatim>\<open>c.courseId.split("-")[-1] if "-" in c.courseId else ""\<close>\<close>

definition term_of :: "string \<Rightarrow> string" where
  "term_of s =
     (if CHR ''-'' \<in> set s then rev (takeWhile (\<lambda>c. c \<noteq> CHR ''-'') (rev s)) else [])"

definition course_row_of :: "Course \<Rightarrow> course_row" where
  "course_row_of c =
     \<lparr>cr_courseInternalId = c_id c, cr_courseId = c_courseId c, cr_courseName = c_name c,
      cr_term = term_of (c_courseId c),
      cr_courseAvailable = available (c_availability c)\<rparr>"

definition user_row_of :: "User \<Rightarrow> user_row" where
  "user_row_of u =
     \<lparr>ur_userId = u_id u, ur_userName = u_userName u, ur_given = un_given (u_name u),
      ur_family = un_family (u_name u), ur_email = ct_email (u_contact u),
      ur_userAvailable = available (u_availability u)\<rparr>"

definition enrollment_row_of :: "Enrollment \<Rightarrow> enrollment_row" where
  "enrollment_row_of e =
     \<lparr>er_enrollmentId = e_id e, er_userId = e_userId e, er_courseInternalId = e_courseId e,
      er_role = e_role e, er_enrollmentAvailable = available (e_availability e)\<rparr>"

definition build_dataframes ::
  "Course list \<Rightarrow> User list \<Rightarrow> Enrollment list
     \<Rightarrow> course_row list \<times> user_row list \<times> enrollment_row list" where
  "build_dataframes courses users enrollments =
     (map course_row_of courses, map user_row_of users, map enrollment_row_of enrollments)"

text \<open>
  \<^verbatim>\<open>left.merge(right, on=key, how="inner")\<close>: one row for every pair of a left and a
  right row with equal keys, in the order of the left rows and, for one left row, of the
  right rows.
\<close>

definition merge_inner ::
  "('a \<Rightarrow> 'k) \<Rightarrow> ('b \<Rightarrow> 'k) \<Rightarrow> 'a list \<Rightarrow> 'b list \<Rightarrow> ('a \<times> 'b) list" where
  "merge_inner lkey rkey left right =
     concat (map (\<lambda>l. map (\<lambda>r. (l, r)) (filter (\<lambda>r. rkey r = lkey l) right)) left)"

definition en_dash :: string where
  "en_dash = [CHR 0xE2, CHR 0x80, CHR 0x93]"

text \<open>The row of the merged frame with the two columns added after the merges.\<close>

definition joined_row_of :: "(enrollment_row \<times> user_row) \<times> course_row \<Rightarrow> joined_row" where
  "joined_row_of t =
     (case t of ((e, u), c) \<Rightarrow>
       \<lparr>enrollmentId = er_enrollmentId e, userId = er_userId e,
        courseInternalId = er_courseInternalId e, role = er_role e,
        enrollmentAvailable = er_enrollmentAvailable e,
        userName = ur_userName u, given = ur_given u, family = ur_family u,
        email = ur_email u, userAvailable = ur_userAvailable u,
        courseId = cr_courseId c, courseName = cr_courseName c, term_col = cr_term c,
        courseAvailable = cr_courseAvailable c,
        userFullName = py_strip (ur_given u @ '' '' @ ur_family u),
        courseLabel = cr_courseId c @ '' '' @ en_dash @ '' '' @ cr_courseName c\<rparr>)"

text \<open>
  \<^verbatim>\<open>_join_frames\<close>.  Its first branch gives an empty frame the columns it lacks; a
  row type has its columns in any case, so the branch leaves the lists as they are.
\<close>

definition join_frames ::
  "course_row list \<Rightarrow> user_row list \<Rightarrow> enrollment_row list \<Rightarrow> joined_row list" where
  "join_frames courses_df users_df enrollments_df =
     map joined_row_of
       (merge_inner (\<lambda>eu. er_courseInternalId (fst eu)) cr_courseInternalId
          (merge_inner er_userId ur_userId enrollments_df users_df) courses_df)"

section \<open>Filters\<close>

text \<open>
  \<^verbatim>\<open>Series.str.contains(needle, na=False)\<close> reads the needle as a regular expression
  of Python's \<^verbatim>\<open>re\<close>.  The library is a parameter \<open>re_compile\<close>: a pattern is
  refused (\<open>None\<close>) or gives the test whether it is found in a string.
\<close>

type_synonym regex_lib = "string \<Rightarrow> (string \<Rightarrow> bool) option"

definition is_student :: "joined_row \<Rightarrow> bool" where
  "is_student r = (py_lower (role r) = ''student'')"

text \<open>
  The mask of the role toggles: it starts as \<^verbatim>\<open>False\<close> for every row and each
  toggle that is set adds its rows.
\<close>

definition keep_mask :: "bool \<Rightarrow> bool \<Rightarrow> joined_row \<Rightarrow> bool" where
  "keep_mask include_instructors include_students r =
     (let k0 = False;
          k1 = (if include_students then k0 \<or> is_student r else k0);
          k2 = (if include_instructors then k1 \<or> \<not> is_student r else k1)
      in k2)"

definition apply_filters ::
  "regex_lib \<Rightarrow> joined_row list \<Rightarrow> string option \<Rightarrow> bool \<Rightarrow> bool \<Rightarrow> bool
     \<Rightarrow> error + joined_row list" where
  "apply_filters re_compile joined_df course_filter include_instructors include_students
     only_available =
     (let df1 = (if only_available \<and> joined_df \<noteq> []
                 then filter (\<lambda>r. courseAvailable r \<and> userAvailable r \<and> enrollmentAvailable r)
                        joined_df
                 else joined_df);
          df2 = (case course_filter of
                   None \<Rightarrow> Inr df1
                 | Some f \<Rightarrow>
                     if f = [] then Inr df1
                     else (case re_compile (py_lower f) of
                             None \<Rightarrow> Inl (PatternError (py_lower f))
                           | Some found \<Rightarrow>
                               Inr (filter (\<lambda>r. found (py_lower (courseId r))
                                              \<or> found (py_lower (courseName r))) df1)))
      in case df2 of
           Inl e \<Rightarrow> Inl e
         | Inr df \<Rightarrow>
             if \<not> (include_instructors \<and> include_students)
             then Inr (filter (keep_mask include_instructors include_students) df)
             else Inr df)"

section \<open>The report\<close>

definition yes_no :: "bool \<Rightarrow> string" where
  "yes_no v = (if v then ''Yes'' else ''No'')"

datatype cell = Str string | Bool bool

definition csv_columns :: "string list" where
  "csv_columns =
     [''courseInternalId'', ''courseId'', ''courseName'', ''term'', ''userId'', ''userName'',
      ''userFullName'', ''email'', ''role'', ''enrollmentAvailable'', ''userAvailable'',
      ''courseAvailable'']"

text \<open>
  \<^verbatim>\<open>_prepare_csv\<close>: the columns of the export in their order; for an empty frame a
  new frame with these columns and no row.
\<close>

definition prepare_csv :: "joined_row list \<Rightarrow> string list \<times> cell list list" where
  "prepare_csv df =
     (csv_columns,
      if df \<noteq> []
      then map (\<lambda>r. [Str (courseInternalId r), Str (courseId r), Str (courseName r),
                     Str (term_col r), Str (userId r), Str (userName r),
                     Str (userFullName r), Str (email r), Str (role r),
                     Bool (enrollmentAvailable r), Bool (userAvailable r),
                     Bool (courseAvailable r)]) df
      else [])"

text \<open>The three availability columns, the only boolean ones, are mapped by \<open>yes_no\<close>.\<close>

fun yes_no_cell :: "cell \<Rightarrow> cell" where
  "yes_no_cell (Bool b) = Str (yes_no b)"
| "yes_no_cell (Str s) = Str s"

record html_row =
  h_courseLabel :: string
  h_term :: string
  h_userFullName :: string
  h_role :: string
  h_enrollmentAvailable :: bool
  h_userAvailable :: bool
  h_courseAvailable :: bool

definition html_row_of :: "joined_row \<Rightarrow> html_row" where
  "html_row_of r =
     \<lparr>h_courseLabel = courseLabel r, h_term = term_col r, h_userFullName = userFullName r,
      h_role = role r, h_enrollmentAvailable = enrollmentAvailable r,
      h_userAvailable = userAvailable r, h_courseAvailable = courseAvailable r\<rparr>"

record summary =
  s_courses :: nat
  s_users :: nat
  s_enrollments :: nat

definition nunique :: "'a list \<Rightarrow> nat" where
  "nunique xs = length (remdups xs)"

definition summary_of :: "joined_row list \<Rightarrow> summary" where
  "summary_of filtered_df =
     \<lparr>s_courses = (if filtered_df \<noteq> [] then nunique (map courseInternalId filtered_df) else 0),
      s_users = (if filtered_df \<noteq> [] then nunique (map userId filtered_df) else 0),
      s_enrollments = length filtered_df\<rparr>"

text \<open>The audit object, without its time stamp (the clock is not modelled).\<close>

record audit =
  a_course_filter :: "string option"
  a_include_instructors :: bool
  a_include_students :: bool
  a_only_available :: bool
  a_input_courses :: nat
  a_input_users :: nat
  a_input_enrollments :: nat
  a_csv_rows :: nat
  a_unique_courses :: nat
  a_unique_users :: nat

text \<open>
  The files of the output directory.  A rendered report is kept as what the template
  is given (the rows and the summary; its time stamp is left out like the audit's).
\<close>

datatype out_file =
    CsvFile "string list" "cell list list"
  | HtmlFile "html_row list" summary
  | AuditFile audit

text \<open>
  What a run reads and changes: the data directory, whether the template
  \<^verbatim>\<open>report.html.j2\<close> is in the template directory, the output directory and the lines
  logged.  Creating the output directory and writing a file succeed.
\<close>

record world =
  data_dir :: "string \<Rightarrow> content option"
  template_present :: bool
  out_dir :: "string \<Rightarrow> out_file option"
  logged :: "string list"

text \<open>\<^verbatim>\<open>_render_html\<close>: \<^verbatim>\<open>env.get_template\<close> raises when the template is not there.\<close>

definition render_html :: "world \<Rightarrow> html_row list \<Rightarrow> summary \<Rightarrow> error + out_file" where
  "render_html w rows sm =
     (if template_present w then Inr (HtmlFile rows sm) else Inl TemplateNotFound)"

definition write_file :: "string \<Rightarrow> out_file \<Rightarrow> world \<Rightarrow> world" where
  "write_file name f w = w\<lparr>out_dir := (out_dir w)(name \<mapsto> f)\<rparr>"

definition generate_report ::
  "regex_lib \<Rightarrow> world \<Rightarrow> string option \<Rightarrow> bool \<Rightarrow> bool \<Rightarrow> bool
     \<Rightarrow> world \<times> (error + string \<times> string \<times> string)" where
  "generate_report re_compile w course_filter include_instructors include_students
     only_available =
     (case load_courses (data_dir w) of
        Inl e \<Rightarrow> (w, Inl e)
      | Inr courses \<Rightarrow>
     (case load_users (data_dir w) of
        Inl e \<Rightarrow> (w, Inl e)
      | Inr users \<Rightarrow>
     (case load_enrollments (data_dir w) of
        (lines, Inl e) \<Rightarrow> (w\<lparr>logged := logged w @ lines\<rparr>, Inl e)
      | (lines, Inr enrollments) \<Rightarrow>
     (let w0 = w\<lparr>logged := logged w @ lines\<rparr>;
          (courses_df, users_df, enrollments_df) = build_dataframes courses users enrollments;
          joined_df = join_frames courses_df users_df enrollments_df
      in case apply_filters re_compile joined_df course_filter include_instructors
                include_students only_available of
           Inl e \<Rightarrow> (w0, Inl e)
         | Inr filtered_df \<Rightarrow>
     (let (header, body) = prepare_csv filtered_df;
          csv_df = (header, map (map yes_no_cell) body);
          w1 = write_file ''enrollment_report.csv'' (CsvFile (fst csv_df) (snd csv_df)) w0;
          rows_for_html = map html_row_of filtered_df;
          sm = summary_of filtered_df
      in case render_html w1 rows_for_html sm of
           Inl e \<Rightarrow> (w1, Inl e)
         | Inr html \<Rightarrow>
     (let w2 = write_file ''enrollment_report.html'' html w1;
          au = \<lparr>a_course_filter = course_filter,
                a_include_instructors = include_instructors,
                a_include_students = include_students,
                a_only_available = only_available,
                a_input_courses = length courses,
                a_input_users = length users,
                a_input_enrollments = length enrollments,
                a_csv_rows = length (snd csv_df),
                a_unique_courses = s_courses sm,
                a_unique_users = s_users sm\<rparr>;
          w3 = write_file ''audit.json'' (AuditFile au) w2
      in (w3, Inr (''enrollment_report.csv'', ''enrollment_report.html'',
                   ''audit.json''))))))))"

section \<open>The reference pipeline of the specification\<close>

text \<open>
  The specification's order of work: first the inner join of the validated records
  (enrollment with user on \<open>userId\<close>, then with course on \<open>courseId\<close>), and only
  then the three derived fields \<open>userFullName\<close>, \<open>courseLabel\<close> and \<open>term\<close>, computed
  on each row that survived.
\<close>

definition derive_fields :: "(Enrollment \<times> User) \<times> Course \<Rightarrow> joined_row" where
  "derive_fields t =
     (case t of ((e, u), c) \<Rightarrow>
       \<lparr>enrollmentId = e_id e, userId = e_userId e, courseInternalId = e_courseId e,
        role = e_role e, enrollmentAvailable = available (e_availability e),
        userName = u_userName u, given = un_given (u_name u),
        family = un_family (u_name u), email = ct_email (u_contact u),
        userAvailable = available (u_availability u),
        courseId = c_courseId c, courseName = c_name c,
        term_col = term_of (c_courseId c),
        courseAvailable = available (c_availability c),
        userFullName = py_strip (un_given (u_name u) @ '' '' @ un_family (u_name u)),
        courseLabel = c_courseId c @ '' '' @ en_dash @ '' '' @ c_name c\<rparr>)"

definition reference_join :: "Course list \<Rightarrow> User list \<Rightarrow> Enrollment list \<Rightarrow> joined_row list" where
  "reference_join courses users enrollments =
     map derive_fields
       (merge_inner (\<lambda>eu. e_courseId (fst eu)) c_id
          (merge_inner e_userId u_id enrollments users) courses)"

section \<open>Sample data\<close>

text \<open>The records of the fixture in \<^verbatim>\<open>tests/test_report.py\<close>, and some variations.\<close>

definition course_cs101 :: Course where
  "course_cs101 =
     \<lparr>c_id = ''_c1_1'', c_courseId = ''CS101-2025FA'', c_name = ''Intro to CS'',
      c_description = None, c_availability = \<lparr>available = True\<rparr>\<rparr>"

definition course_hist200 :: Course where
  "course_hist200 =
     \<lparr>c_id = ''_c2_1'', c_courseId = ''HIST200-2025FA'', c_name = ''World History'',
      c_description = None, c_availability = \<lparr>available = False\<rparr>\<rparr>"

definition user_inst1 :: User where
  "user_inst1 =
     \<lparr>u_id = ''_u1_1'', u_userName = ''inst1'',
      u_name = \<lparr>un_given = ''Ina'', un_family = ''Structor''\<rparr>,
      u_contact = \<lparr>ct_email = ''ina@school.edu''\<rparr>,
      u_availability = \<lparr>available = True\<rparr>\<rparr>"

definition user_stud1 :: User where
  "user_stud1 =
     \<lparr>u_id = ''_u2_1'', u_userName = ''stud1'',
      u_name = \<lparr>un_given = ''Stu'', un_family = ''Dent''\<rparr>,
      u_contact = \<lparr>ct_email = ''stu@school.edu''\<rparr>,
      u_availability = \<lparr>available = True\<rparr>\<rparr>"

definition user_stud2 :: User where
  "user_stud2 =
     \<lparr>u_id = ''_u3_1'', u_userName = ''stud2'',
      u_name = \<lparr>un_given = ''Una'', un_family = ''Vailable''\<rparr>,
      u_contact = \<lparr>ct_email = ''una@school.edu''\<rparr>,
      u_availability = \<lparr>available = False\<rparr>\<rparr>"

text \<open>A second user with the id of \<open>user_inst1\<close>.\<close>

definition user_inst1_again :: User where
  "user_inst1_again =
     \<lparr>u_id = ''_u1_1'', u_userName = ''inst1b'',
      u_name = \<lparr>un_given = ''Ian'', un_family = ''Other''\<rparr>,
      u_contact = \<lparr>ct_email = ''ian@school.edu''\<rparr>,
      u_availability = \<lparr>available = True\<rparr>\<rparr>"

definition enrollment_e1 :: Enrollment where
  "enrollment_e1 =
     \<lparr>e_id = ''_e1_1'', e_userId = ''_u1_1'', e_courseId = ''_c1_1'',
      e_role = ''Instructor'', e_availability = \<lparr>available = True\<rparr>\<rparr>"

definition enrollment_e2 :: Enrollment where
  "enrollment_e2 =
     \<lparr>e_id = ''_e2_1'', e_userId = ''_u2_1'', e_courseId = ''_c1_1'',
      e_role = ''Student'', e_availability = \<lparr>available = True\<rparr>\<rparr>"

definition enrollment_e3 :: Enrollment where
  "enrollment_e3 =
     \<lparr>e_id = ''_e3_1'', e_userId = ''_u3_1'', e_courseId = ''_c2_1'',
      e_role = ''Student'', e_availability = \<lparr>available = False\<rparr>\<rparr>"

text \<open>An enrollment of a user that is in no file.\<close>

definition enrollment_orphan :: Enrollment where
  "enrollment_orphan =
     \<lparr>e_id = ''_e9_1'', e_userId = ''_u9_1'', e_courseId = ''_c1_1'',
      e_role = ''Student'', e_availability = \<lparr>available = True\<rparr>\<rparr>"

definition sample_courses :: "Course list" where
  "sample_courses = [course_cs101, course_hist200]"

definition sample_users :: "User list" where
  "sample_users = [user_inst1, user_stud1, user_stud2]"

definition sample_enrollments :: "Enrollment list" where
  "sample_enrollments = [enrollment_e1, enrollment_e2, enrollment_e3]"

definition sample_joined :: "joined_row list" where
  "sample_joined =
     (case build_dataframes sample_courses sample_users sample_enrollments of
        (courses_df, users_df, enrollments_df) \<Rightarrow>
          join_frames courses_df users_df enrollments_df)"

text \<open>Raw records as the data files hold them.\<close>

definition raw_course_cs101 :: pydict where
  "raw_course_cs101 =
     [(''id'', JStr ''_c1_1''), (''courseId'', JStr ''CS101-2025FA''),
      (''name'', JStr ''Intro to CS''),
      (''availability'', JObj [(''available'', JStr ''Yes'')])]"


text \<open>Records with no \<open>availability\<close>, with \<^verbatim>\<open>null\<close>, and with an object without the key.\<close>

definition raw_course_no_availability :: pydict where
  "raw_course_no_availability =
     [(''id'', JStr ''_c3_1''), (''courseId'', JStr ''MATH1-2025FA''),
      (''name'', JStr ''Calculus'')]"

definition raw_user_null_availability :: pydict where
  "raw_user_null_availability =
     [(''id'', JStr ''_u1_1''), (''userName'', JStr ''inst1''),
      (''name'', JObj [(''given'', JStr ''Ina''), (''family'', JStr ''Structor'')]),
      (''contact'', JObj [(''email'', JStr ''ina@school.edu'')]),
      (''availability'', JNull)]"

definition raw_enrollment_other_availability :: pydict where
  "raw_enrollment_other_availability =
     [(''id'', JStr ''_e1_1''), (''userId'', JStr ''_u1_1''), (''courseId'', JStr ''_c1_1''),
      (''role'', JStr ''Instructor''),
      (''availability'', JObj [(''note'', JStr ''unknown'')])]"

text \<open>An enrollment with a role outside the recognised set.\<close>

definition raw_enrollment_super_role :: pydict where
  "raw_enrollment_super_role =
     [(''id'', JStr ''_x_1''), (''userId'', JStr ''_u_1''), (''courseId'', JStr ''_c_1''),
      (''role'', JStr ''SuperRole''),
      (''availability'', JObj [(''available'', JBool True)])]"

text \<open>A data directory with the three files and nothing else.\<close>

definition data_files :: "content \<Rightarrow> content \<Rightarrow> content \<Rightarrow> string \<Rightarrow> content option" where
  "data_files cs us es name =
     (if name = ''courses.json'' then Some cs
      else if name = ''users.json'' then Some us
      else if name = ''enrollments.json'' then Some es
      else None)"




text \<open>
  Data files in which the second enrollment is of a user and a course that are in no
  file.
\<close>

definition world_orphan_enrollment :: world where
  "world_orphan_enrollment =
     \<lparr>data_dir = data_files (Records [raw_course_cs101])
                   (Records [raw_user_null_availability])
                   (Records [raw_enrollment_other_availability, raw_enrollment_super_role]),
      template_present = True, out_dir = Map.empty, logged = []\<rparr>"

text \<open>A regular expression library that knows no pattern; no sample run has a filter.\<close>

definition no_patterns :: regex_lib where
  "no_patterns p = None"

section \<open>Facts about the join and the filters\<close>

lemma merge_inner_Nil [simp]: "merge_inner lk rk [] right = []"
  by (simp add: merge_inner_def)

lemma merge_inner_Nil2 [simp]: "merge_inner lk rk left [] = []"
  by (simp add: merge_inner_def)

lemma merge_inner_Cons:
  "merge_inner lk rk (l # left) right =
     map (\<lambda>r. (l, r)) (filter (\<lambda>r. rk r = lk l) right) @ merge_inner lk rk left right"
  by (simp add: merge_inner_def)

lemma merge_inner_append:
  "merge_inner lk rk (xs @ ys) right = merge_inner lk rk xs right @ merge_inner lk rk ys right"
  by (simp add: merge_inner_def)

lemma set_merge_inner:
  "set (merge_inner lk rk left right) =
     {(l, r). l \<in> set left \<and> r \<in> set right \<and> rk r = lk l}"
  by (auto simp: merge_inner_def)

lemma merge_inner_map:
  "merge_inner lk rk (map f left) (map g right) =
     map (map_prod f g) (merge_inner (lk \<circ> f) (rk \<circ> g) left right)"
  by (induction left) (simp_all add: merge_inner_Cons filter_map comp_def)

lemma merge_inner_fst_const:
  "merge_inner (\<lambda>p. k (fst p)) rk (map (\<lambda>r. (l, r)) xs) right =
     concat (map (\<lambda>x. map (\<lambda>c. ((l, x), c)) (filter (\<lambda>c. rk c = k l) right)) xs)"
  by (simp add: merge_inner_def comp_def)

lemma length_concat_const:
  "length (concat (map (\<lambda>x. map (f x) ys) xs)) = length xs * length ys"
  by (induction xs) simp_all

lemma length_join_frames:
  "length (join_frames cdf udf edf) =
     sum_list (map (\<lambda>e. length (filter (\<lambda>u. ur_userId u = er_userId e) udf) *
                         length (filter (\<lambda>c. cr_courseInternalId c = er_courseInternalId e) cdf)) edf)"
proof (induction edf)
  case Nil
  show ?case by (simp add: join_frames_def)
next
  case (Cons e edf)
  have "length (join_frames cdf udf (e # edf)) =
          length (merge_inner (\<lambda>eu. er_courseInternalId (fst eu)) cr_courseInternalId
                    (map (\<lambda>u. (e, u)) (filter (\<lambda>u. ur_userId u = er_userId e) udf)) cdf)
          + length (join_frames cdf udf edf)"
    by (simp add: join_frames_def merge_inner_Cons merge_inner_append)
  also have "length (merge_inner (\<lambda>eu. er_courseInternalId (fst eu)) cr_courseInternalId
                    (map (\<lambda>u. (e, u)) (filter (\<lambda>u. ur_userId u = er_userId e) udf)) cdf) =
             length (filter (\<lambda>u. ur_userId u = er_userId e) udf) *
             length (filter (\<lambda>c. cr_courseInternalId c = er_courseInternalId e) cdf)"
    by (simp only: merge_inner_fst_const length_concat_const)
  finally show ?case using Cons.IH by simp
qed

lemma set_join_frames:
  "set (join_frames cdf udf edf) =
     {joined_row_of ((e, u), c) | e u c.
        e \<in> set edf \<and> u \<in> set udf \<and> c \<in> set cdf \<and>
        ur_userId u = er_userId e \<and> cr_courseInternalId c = er_courseInternalId e}"
proof -
  have "set (join_frames cdf udf edf) =
          joined_row_of ` {((e, u), c). e \<in> set edf \<and> u \<in> set udf \<and> c \<in> set cdf \<and>
             ur_userId u = er_userId e \<and> cr_courseInternalId c = er_courseInternalId e}"
    by (auto simp: join_frames_def set_merge_inner)
  also have "\<dots> = {joined_row_of ((e, u), c) | e u c.
        e \<in> set edf \<and> u \<in> set udf \<and> c \<in> set cdf \<and>
        ur_userId u = er_userId e \<and> cr_courseInternalId c = er_courseInternalId e}"
    by (auto simp: image_iff)
  finally show ?thesis .
qed

lemma joined_row_of_keys [simp]:
  "userId (joined_row_of ((e, u), c)) = er_userId e"
  "courseInternalId (joined_row_of ((e, u), c)) = er_courseInternalId e"
  by (simp_all add: joined_row_of_def)

lemma join_frames_drop:
  assumes "er_userId e \<notin> ur_userId ` set udf \<or>
           er_courseInternalId e \<notin> cr_courseInternalId ` set cdf"
  shows "join_frames cdf udf (es1 @ e # es2) = join_frames cdf udf (es1 @ es2)"
proof -
  have "merge_inner (\<lambda>eu. er_courseInternalId (fst eu)) cr_courseInternalId
          (merge_inner er_userId ur_userId [e] udf) cdf = []"
  proof (cases "er_userId e \<notin> ur_userId ` set udf")
    case True
    then have "filter (\<lambda>u. ur_userId u = er_userId e) udf = []"
      by (force simp: filter_empty_conv)
    then show ?thesis by (simp add: merge_inner_Cons)
  next
    case False
    with assms have "filter (\<lambda>c. cr_courseInternalId c = er_courseInternalId e) cdf = []"
      by (force simp: filter_empty_conv)
    then show ?thesis by (simp add: merge_inner_Cons merge_inner_fst_const)
  qed
  then show ?thesis
    using merge_inner_append [of _ _ es1 "e # es2"]
    by (simp add: join_frames_def merge_inner_append merge_inner_Cons)
qed

lemma keep_mask_iff:
  "keep_mask ii st r =
     ((st \<and> py_lower (role r) = ''student'') \<or> (ii \<and> py_lower (role r) \<noteq> ''student''))"
  by (simp add: keep_mask_def is_student_def Let_def)

lemma joined_row_of_rows:
  "joined_row_of ((enrollment_row_of e, user_row_of u), course_row_of c) =
     derive_fields ((e, u), c)"
  by (simp add: joined_row_of_def derive_fields_def enrollment_row_of_def user_row_of_def
        course_row_of_def)

lemma join_frames_build:
  "join_frames (map course_row_of courses) (map user_row_of users)
     (map enrollment_row_of enrollments) = reference_join courses users enrollments"
proof -
  have k1: "er_userId \<circ> enrollment_row_of = e_userId"
    and k2: "ur_userId \<circ> user_row_of = u_id"
    and k3: "(\<lambda>eu. er_courseInternalId (fst eu)) \<circ> map_prod enrollment_row_of user_row_of =
             (\<lambda>eu. e_courseId (fst eu))"
    and k4: "cr_courseInternalId \<circ> course_row_of = c_id"
    by (auto simp: fun_eq_iff enrollment_row_of_def user_row_of_def course_row_of_def)
  have k5: "joined_row_of \<circ> map_prod (map_prod enrollment_row_of user_row_of) course_row_of =
            derive_fields"
    by (auto simp: fun_eq_iff joined_row_of_rows)
  show ?thesis
    by (simp add: join_frames_def reference_join_def merge_inner_map k1 k2 k3 k4 k5)
qed

lemma set_reference_join:
  "set (reference_join courses users enrollments) =
     {derive_fields ((e, u), c) | e u c.
        e \<in> set enrollments \<and> u \<in> set users \<and> c \<in> set courses \<and>
        u_id u = e_userId e \<and> c_id c = e_courseId e}"
proof -
  have "set (reference_join courses users enrollments) =
          derive_fields ` {((e, u), c). e \<in> set enrollments \<and> u \<in> set users \<and>
             c \<in> set courses \<and> u_id u = e_userId e \<and> c_id c = e_courseId e}"
    by (auto simp: reference_join_def set_merge_inner)
  also have "\<dots> = {derive_fields ((e, u), c) | e u c.
        e \<in> set enrollments \<and> u \<in> set users \<and> c \<in> set courses \<and>
        u_id u = e_userId e \<and> c_id c = e_courseId e}"
    by (auto simp: image_iff)
  finally show ?thesis .
qed

lemma length_reference_join:
  "length (reference_join courses users enrollments) =
     (\<Sum>e\<leftarrow>enrollments.
        length (filter (\<lambda>u. u_id u = e_userId e) users) *
        length (filter (\<lambda>c. c_id c = e_courseId e) courses))"
proof -
  have "length (reference_join courses users enrollments) =
        length (join_frames (map course_row_of courses) (map user_row_of users)
                  (map enrollment_row_of enrollments))"
    by (simp add: join_frames_build)
  also have "\<dots> = (\<Sum>e\<leftarrow>enrollments.
        length (filter (\<lambda>u. u_id u = e_userId e) users) *
        length (filter (\<lambda>c. c_id c = e_courseId e) courses))"
    by (simp add: length_join_frames filter_map comp_def
          enrollment_row_of_def user_row_of_def course_row_of_def)
  finally show ?thesis .
qed

lemma filter_map_upd:
  assumes "\<And>r. P (g r) = P r"
  shows "filter P (map g xs) = map g (filter P xs)"
  using assms by (induction xs) simp_all

lemma length_filter_distinct_key:
  "distinct (map f xs) \<Longrightarrow> v \<in> f ` set xs \<Longrightarrow> length (filter (\<lambda>x. f x = v) xs) = 1"
proof (induction xs)
  case Nil
  then show ?case by simp
next
  case (Cons x xs)
  show ?case
  proof (cases "f x = v")
    case True
    from Cons.prems have "f x \<notin> f ` set xs" by simp
    with True have "\<forall>y\<in>set xs. f y \<noteq> v" by blast
    then have "filter (\<lambda>x. f x = v) xs = []"
      by (simp add: filter_empty_conv)
    with True show ?thesis by simp
  next
    case False
    with Cons show ?thesis by auto
  qed
qed



lemma normalize_item_map_of:
  assumes "normalize_item item = Inr item'"
  shows "map_of item' =
           (map_of item)(''availability'' \<mapsto>
              JObj [(''available'', JBool (coerce_available_to_bool
                 (case (if truthy (dict_get item ''availability'')
                        then dict_get item ''availability'' else JObj []) of
                    JObj d \<Rightarrow> dict_get d ''available'' | _ \<Rightarrow> JNull)))])"
  using assms
  by (auto simp: normalize_item_def Let_def update_conv' split: json.splits if_splits)

lemma normalize_item_str_field:
  "normalize_item item = Inr item' \<Longrightarrow> k \<noteq> ''availability'' \<Longrightarrow>
     str_field loc item' k = str_field loc item k"
  by (simp add: str_field_def normalize_item_map_of)

lemma normalize_item_opt_str_field:
  "normalize_item item = Inr item' \<Longrightarrow> k \<noteq> ''availability'' \<Longrightarrow>
     opt_str_field loc item' k = opt_str_field loc item k"
  by (simp add: opt_str_field_def normalize_item_map_of)

lemma normalize_item_model_field:
  "normalize_item item = Inr item' \<Longrightarrow> k \<noteq> ''availability'' \<Longrightarrow>
     model_field v item' k = model_field v item k"
  by (simp add: model_field_def normalize_item_map_of)





lemma normalize_item_role_field:
  "normalize_item item = Inr item' \<Longrightarrow> role_field item' = role_field item"
  by (simp add: role_field_def normalize_item_str_field)









lemma normalize_item_absent:
  assumes "map_of item ''availability'' = None \<or> map_of item ''availability'' = Some JNull \<or>
           (\<exists>a. map_of item ''availability'' = Some (JObj a) \<and> map_of a ''available'' = None)"
  shows "normalize_item item =
           Inr (AList.update ''availability'' (JObj [(''available'', JBool False)]) item)"
proof -
  consider "map_of item ''availability'' = None" | "map_of item ''availability'' = Some JNull"
    | a where "map_of item ''availability'' = Some (JObj a)" "map_of a ''available'' = None"
    using assms by auto
  then show ?thesis
  proof cases
    case 1
    then show ?thesis by (simp add: normalize_item_def dict_get_def)
  next
    case 2
    then show ?thesis by (simp add: normalize_item_def dict_get_def)
  next
    case 3
    then show ?thesis by (cases a) (simp_all add: normalize_item_def dict_get_def)
  qed
qed




lemma generate_report_loaded:
  assumes "load_courses (data_dir w) = Inr cs" "load_users (data_dir w) = Inr us"
    "load_enrollments (data_dir w) = (ls, Inr es)"
  shows "generate_report re_compile w cf ii st oa =
     (case apply_filters re_compile
             (join_frames (map course_row_of cs) (map user_row_of us)
                (map enrollment_row_of es)) cf ii st oa of
        Inl e \<Rightarrow> (w\<lparr>logged := logged w @ ls\<rparr>, Inl e)
      | Inr filtered_df \<Rightarrow>
          (let w1 = write_file ''enrollment_report.csv''
                      (CsvFile (fst (prepare_csv filtered_df))
                         (map (map yes_no_cell) (snd (prepare_csv filtered_df))))
                      (w\<lparr>logged := logged w @ ls\<rparr>)
           in if template_present w
              then (write_file ''audit.json''
                      (AuditFile
                         \<lparr>a_course_filter = cf, a_include_instructors = ii,
                          a_include_students = st, a_only_available = oa,
                          a_input_courses = length cs, a_input_users = length us,
                          a_input_enrollments = length es,
                          a_csv_rows = length (snd (prepare_csv filtered_df)),
                          a_unique_courses = s_courses (summary_of filtered_df),
                          a_unique_users = s_users (summary_of filtered_df)\<rparr>)
                      (write_file ''enrollment_report.html''
                         (HtmlFile (map html_row_of filtered_df) (summary_of filtered_df)) w1),
                    Inr (''enrollment_report.csv'', ''enrollment_report.html'',
                         ''audit.json''))
              else (w1, Inl TemplateNotFound)))"
  using assms
  by (simp add: generate_report_def build_dataframes_def render_html_def write_file_def
        Let_def split_beta split: sum.splits)



lemma apply_filters_no_course_filter:
  "\<exists>df. apply_filters re_compile joined_df None ii st oa = Inr df"
  by (simp add: apply_filters_def)

lemma generate_report_succeeds:
  assumes "\<not> isl (load_courses (data_dir w))" "\<not> isl (load_users (data_dir w))"
    "\<not> isl (snd (load_enrollments (data_dir w)))" "template_present w"
  shows "snd (generate_report re_compile w None ii st oa) =
           Inr (''enrollment_report.csv'', ''enrollment_report.html'', ''audit.json'')"
proof -
  from assms obtain cs us ls es where l: "load_courses (data_dir w) = Inr cs"
    "load_users (data_dir w) = Inr us" "load_enrollments (data_dir w) = (ls, Inr es)"
    by (metis isl_def prod.collapse sum.exhaust)
  obtain df where "apply_filters re_compile
      (join_frames (map course_row_of cs) (map user_row_of us) (map enrollment_row_of es))
      None ii st oa = Inr df"
    using apply_filters_no_course_filter by blast
  with assms(4) show ?thesis
    by (simp add: generate_report_loaded [OF l] Let_def)
qed

section \<open>The claims\<close>

text \<open>
  C1.  Every row of the joined frame has the \<open>userId\<close> of a user of the input and the
  course key of a course of the input.  The join is a total function to a list of rows:
  it has no error result, and an enrollment whose user or course is in no input is left
  out, the rows of the other enrollments being what they are without it.  No run is
  aborted for such an enrollment: once the three files have loaded, a run (with the
  template in place and no course filter) succeeds whatever the enrollments refer to.
\<close>

theorem join_referential_integrity:
  "(\<forall>r \<in> set (case build_dataframes courses users enrollments of
                 (courses_df, users_df, enrollments_df) \<Rightarrow>
                   join_frames courses_df users_df enrollments_df).
       userId r \<in> u_id ` set users \<and> courseInternalId r \<in> c_id ` set courses) \<and>
   (e_userId e \<notin> u_id ` set users \<or> e_courseId e \<notin> c_id ` set courses \<longrightarrow>
     (case build_dataframes courses users (es1 @ e # es2) of
        (courses_df, users_df, enrollments_df) \<Rightarrow>
          join_frames courses_df users_df enrollments_df) =
     (case build_dataframes courses users (es1 @ es2) of
        (courses_df, users_df, enrollments_df) \<Rightarrow>
          join_frames courses_df users_df enrollments_df)) \<and>
   (\<not> isl (load_courses (data_dir w)) \<and> \<not> isl (load_users (data_dir w)) \<and>
    \<not> isl (snd (load_enrollments (data_dir w))) \<and> template_present w \<longrightarrow>
      snd (generate_report re_compile w None ii st oa) =
        Inr (''enrollment_report.csv'', ''enrollment_report.html'', ''audit.json''))"
proof (intro conjI ballI impI)
  fix r
  assume "r \<in> set (case build_dataframes courses users enrollments of
                 (courses_df, users_df, enrollments_df) \<Rightarrow>
                   join_frames courses_df users_df enrollments_df)"
  then obtain er ur cr where r: "r = joined_row_of ((er, ur), cr)"
    and "ur \<in> user_row_of ` set users" "cr \<in> course_row_of ` set courses"
    and k: "ur_userId ur = er_userId er" "cr_courseInternalId cr = er_courseInternalId er"
    by (auto simp: build_dataframes_def set_join_frames)
  then obtain u c where "u \<in> set users" "ur = user_row_of u" "c \<in> set courses"
    "cr = course_row_of c" by auto
  with r k show "userId r \<in> u_id ` set users"
    by (force simp: user_row_of_def)
  from r k \<open>c \<in> set courses\<close> \<open>cr = course_row_of c\<close>
  show "courseInternalId r \<in> c_id ` set courses"
    by (force simp: course_row_of_def)
next
  assume a: "e_userId e \<notin> u_id ` set users \<or> e_courseId e \<notin> c_id ` set courses"
  have "er_userId (enrollment_row_of e) \<notin> ur_userId ` set (map user_row_of users) \<or>
        er_courseInternalId (enrollment_row_of e) \<notin>
          cr_courseInternalId ` set (map course_row_of courses)"
    using a by (force simp: enrollment_row_of_def user_row_of_def course_row_of_def)
  from join_frames_drop [OF this]
  show "(case build_dataframes courses users (es1 @ e # es2) of
        (courses_df, users_df, enrollments_df) \<Rightarrow>
          join_frames courses_df users_df enrollments_df) =
     (case build_dataframes courses users (es1 @ es2) of
        (courses_df, users_df, enrollments_df) \<Rightarrow>
          join_frames courses_df users_df enrollments_df)"
    by (simp add: build_dataframes_def)
next
  assume "\<not> isl (load_courses (data_dir w)) \<and> \<not> isl (load_users (data_dir w)) \<and>
    \<not> isl (snd (load_enrollments (data_dir w))) \<and> template_present w"
  then show "snd (generate_report re_compile w None ii st oa) =
        Inr (''enrollment_report.csv'', ''enrollment_report.html'', ''audit.json'')"
    by (intro generate_report_succeeds) blast+
qed

theorem join_referential_integrity_witness:
  "map userId sample_joined = [''_u1_1'', ''_u2_1'', ''_u3_1''] \<and>
   list_all (\<lambda>r. userId r \<in> u_id ` set sample_users \<and>
                  courseInternalId r \<in> c_id ` set sample_courses) sample_joined \<and>
   e_userId enrollment_orphan \<notin> u_id ` set sample_users \<and>
   (case build_dataframes sample_courses sample_users
           ([enrollment_e1] @ enrollment_orphan # [enrollment_e2, enrollment_e3]) of
      (courses_df, users_df, enrollments_df) \<Rightarrow>
        join_frames courses_df users_df enrollments_df) = sample_joined \<and>
   map_sum id (map e_userId) (snd (load_enrollments (data_dir world_orphan_enrollment))) =
     Inr [''_u1_1'', ''_u_1''] \<and>
   map_sum id (map u_id) (load_users (data_dir world_orphan_enrollment)) = Inr [''_u1_1''] \<and>
   snd (generate_report no_patterns world_orphan_enrollment None True True False) =
     Inr (''enrollment_report.csv'', ''enrollment_report.html'', ''audit.json'') \<and>
   out_dir (fst (generate_report no_patterns world_orphan_enrollment None True True False))
     ''enrollment_report.csv'' =
     Some (CsvFile csv_columns
       [[Str ''_c1_1'', Str ''CS101-2025FA'', Str ''Intro to CS'', Str ''2025FA'',
         Str ''_u1_1'', Str ''inst1'', Str ''Ina Structor'', Str ''ina@school.edu'',
         Str ''Instructor'', Str ''No'', Str ''No'', Str ''Yes'']])"
proof -
  have loads: "\<not> isl (load_courses (data_dir world_orphan_enrollment)) \<and>
      \<not> isl (load_users (data_dir world_orphan_enrollment)) \<and>
      \<not> isl (snd (load_enrollments (data_dir world_orphan_enrollment))) \<and>
      template_present world_orphan_enrollment"
    by code_simp
  have ids: "map_sum id (map e_userId)
        (snd (load_enrollments (data_dir world_orphan_enrollment))) =
     Inr [''_u1_1'', ''_u_1'']"
    "map_sum id (map u_id) (load_users (data_dir world_orphan_enrollment)) = Inr [''_u1_1'']"
    by code_simp+
  have csv: "out_dir (fst (generate_report no_patterns world_orphan_enrollment None True True
       False)) ''enrollment_report.csv'' =
     Some (CsvFile csv_columns
       [[Str ''_c1_1'', Str ''CS101-2025FA'', Str ''Intro to CS'', Str ''2025FA'',
         Str ''_u1_1'', Str ''inst1'', Str ''Ina Structor'', Str ''ina@school.edu'',
         Str ''Instructor'', Str ''No'', Str ''No'', Str ''Yes'']])"
    by code_simp
  have rows: "map userId sample_joined = [''_u1_1'', ''_u2_1'', ''_u3_1'']"
    by code_simp
  have orphan: "e_userId enrollment_orphan \<notin> u_id ` set sample_users"
    by code_simp
  have same: "[enrollment_e1] @ [enrollment_e2, enrollment_e3] = sample_enrollments"
    by (simp add: sample_enrollments_def)
  note inst = join_referential_integrity [of sample_courses sample_users sample_enrollments
      enrollment_orphan "[enrollment_e1]" "[enrollment_e2, enrollment_e3]"
      world_orphan_enrollment no_patterns True True False]
  from inst have "list_all (\<lambda>r. userId r \<in> u_id ` set sample_users \<and>
                  courseInternalId r \<in> c_id ` set sample_courses) sample_joined"
    unfolding sample_joined_def list_all_iff by blast
  moreover from inst orphan have
    "(case build_dataframes sample_courses sample_users
           ([enrollment_e1] @ enrollment_orphan # [enrollment_e2, enrollment_e3]) of
      (courses_df, users_df, enrollments_df) \<Rightarrow>
        join_frames courses_df users_df enrollments_df) = sample_joined"
    unfolding sample_joined_def same by blast
  moreover from inst loads have
    "snd (generate_report no_patterns world_orphan_enrollment None True True False) =
     Inr (''enrollment_report.csv'', ''enrollment_report.html'', ''audit.json'')"
    by blast
  ultimately show ?thesis using rows orphan ids csv by (intro conjI)
qed

text \<open>
  C2 (as amended).  The join does not pick a first match.  An enrollment gives one row
  for every pair of a user with its \<open>userId\<close> and a course with its \<open>courseId\<close>: the
  number of rows is the sum, over the enrollments, of the number of matching users times
  the number of matching courses, and the rows are those of all matching triples.  The
  output is a function of the input.  When the ids of the users and of the courses are
  pairwise different, an enrollment whose user and course exist has exactly one row.
\<close>

theorem join_one_row_per_matching_pair:
  "length (case build_dataframes courses users enrollments of
             (courses_df, users_df, enrollments_df) \<Rightarrow>
               join_frames courses_df users_df enrollments_df) =
     (\<Sum>e\<leftarrow>enrollments.
        length (filter (\<lambda>u. u_id u = e_userId e) users) *
        length (filter (\<lambda>c. c_id c = e_courseId e) courses)) \<and>
   set (case build_dataframes courses users enrollments of
          (courses_df, users_df, enrollments_df) \<Rightarrow>
            join_frames courses_df users_df enrollments_df) =
     {derive_fields ((e, u), c) | e u c.
        e \<in> set enrollments \<and> u \<in> set users \<and> c \<in> set courses \<and>
        u_id u = e_userId e \<and> c_id c = e_courseId e} \<and>
   (distinct (map u_id users) \<and> distinct (map c_id courses) \<and>
    e_userId e \<in> u_id ` set users \<and> e_courseId e \<in> c_id ` set courses \<longrightarrow>
      length (case build_dataframes courses users [e] of
                (courses_df, users_df, enrollments_df) \<Rightarrow>
                  join_frames courses_df users_df enrollments_df) = 1)"
proof (intro conjI impI)
  show "length (case build_dataframes courses users enrollments of
             (courses_df, users_df, enrollments_df) \<Rightarrow>
               join_frames courses_df users_df enrollments_df) =
     (\<Sum>e\<leftarrow>enrollments.
        length (filter (\<lambda>u. u_id u = e_userId e) users) *
        length (filter (\<lambda>c. c_id c = e_courseId e) courses))"
    by (simp only: build_dataframes_def prod.case join_frames_build length_reference_join)
  show "set (case build_dataframes courses users enrollments of
          (courses_df, users_df, enrollments_df) \<Rightarrow>
            join_frames courses_df users_df enrollments_df) =
     {derive_fields ((e, u), c) | e u c.
        e \<in> set enrollments \<and> u \<in> set users \<and> c \<in> set courses \<and>
        u_id u = e_userId e \<and> c_id c = e_courseId e}"
    by (simp only: build_dataframes_def prod.case join_frames_build set_reference_join)
  assume "distinct (map u_id users) \<and> distinct (map c_id courses) \<and>
    e_userId e \<in> u_id ` set users \<and> e_courseId e \<in> c_id ` set courses"
  then have "length (filter (\<lambda>u. u_id u = e_userId e) users) = 1"
    and "length (filter (\<lambda>c. c_id c = e_courseId e) courses) = 1"
    by (simp_all add: length_filter_distinct_key)
  moreover have "length (case build_dataframes courses users [e] of
                (courses_df, users_df, enrollments_df) \<Rightarrow>
                  join_frames courses_df users_df enrollments_df) =
        length (reference_join courses users [e])"
    by (simp only: build_dataframes_def prod.case join_frames_build)
  ultimately show "length (case build_dataframes courses users [e] of
                (courses_df, users_df, enrollments_df) \<Rightarrow>
                  join_frames courses_df users_df enrollments_df) = 1"
    by (simp add: length_reference_join)
qed

theorem join_one_row_per_matching_pair_witness:
  "length (case build_dataframes sample_courses [user_inst1, user_inst1_again] [enrollment_e1] of
             (courses_df, users_df, enrollments_df) \<Rightarrow>
               join_frames courses_df users_df enrollments_df) = 2 \<and>
   length (filter (\<lambda>u. u_id u = e_userId enrollment_e1) [user_inst1, user_inst1_again]) = 2 \<and>
   length (filter (\<lambda>c. c_id c = e_courseId enrollment_e1) sample_courses) = 1 \<and>
   distinct (map u_id sample_users) \<and> distinct (map c_id sample_courses) \<and>
   e_userId enrollment_e1 \<in> u_id ` set sample_users \<and>
   e_courseId enrollment_e1 \<in> c_id ` set sample_courses \<and>
   length (case build_dataframes sample_courses sample_users [enrollment_e1] of
             (courses_df, users_df, enrollments_df) \<Rightarrow>
               join_frames courses_df users_df enrollments_df) = 1"
proof -
  have d: "distinct (map u_id sample_users) \<and> distinct (map c_id sample_courses) \<and>
     e_userId enrollment_e1 \<in> u_id ` set sample_users \<and>
     e_courseId enrollment_e1 \<in> c_id ` set sample_courses"
    by code_simp
  have u: "length (filter (\<lambda>u. u_id u = e_userId enrollment_e1)
                     [user_inst1, user_inst1_again]) = 2"
    by code_simp
  have c: "length (filter (\<lambda>c. c_id c = e_courseId enrollment_e1) sample_courses) = 1"
    by code_simp
  from join_one_row_per_matching_pair
         [of sample_courses "[user_inst1, user_inst1_again]" "[enrollment_e1]"] u c
  have 1: "length (case build_dataframes sample_courses [user_inst1, user_inst1_again]
                       [enrollment_e1] of
             (courses_df, users_df, enrollments_df) \<Rightarrow>
               join_frames courses_df users_df enrollments_df) = 2"
    by simp
  from join_one_row_per_matching_pair [of sample_courses sample_users _ enrollment_e1] d
  have 2: "length (case build_dataframes sample_courses sample_users [enrollment_e1] of
             (courses_df, users_df, enrollments_df) \<Rightarrow>
               join_frames courses_df users_df enrollments_df) = 1"
    by blast
  from 1 u c d 2 show ?thesis by (intro conjI) blast+
qed

text \<open>
  The claim as it was stated fails: two users share the id \<open>_u1_1\<close>, and the one
  enrollment of that id comes out twice, once with each of them.
\<close>

theorem join_duplicate_ids_counterexample:
  "map userName
     (case build_dataframes sample_courses [user_inst1, user_inst1_again] [enrollment_e1] of
        (courses_df, users_df, enrollments_df) \<Rightarrow>
          join_frames courses_df users_df enrollments_df) = [''inst1'', ''inst1b'']"
  by code_simp



text \<open>
  C4.  The role toggles keep exactly the rows with (students included and the role is
  \<open>student\<close> in lower case) or (instructors included and it is not).  Whatever the
  other two filters, the result is the result of the run with both toggles set (which
  skips the role filter) filtered by that predicate; with both set the predicate holds
  of every row, so skipping and evaluating agree.  With both toggles off no row is left.
\<close>

theorem role_filter_or_predicate:
  "apply_filters re_compile joined_df course_filter include_instructors include_students
     only_available =
     (case apply_filters re_compile joined_df course_filter True True only_available of
        Inl e \<Rightarrow> Inl e
      | Inr rows \<Rightarrow>
          Inr (filter (\<lambda>r. (include_students \<and> py_lower (role r) = ''student'') \<or>
                           (include_instructors \<and> py_lower (role r) \<noteq> ''student'')) rows)) \<and>
   apply_filters re_compile joined_df None include_instructors include_students False =
     Inr (filter (\<lambda>r. (include_students \<and> py_lower (role r) = ''student'') \<or>
                      (include_instructors \<and> py_lower (role r) \<noteq> ''student'')) joined_df) \<and>
   apply_filters re_compile joined_df None False False only_available = Inr []"
proof -
  have taut: "\<And>xs :: joined_row list.
      filter (\<lambda>r. py_lower (role r) = ''student'' \<or> py_lower (role r) \<noteq> ''student'') xs = xs"
    by simp
  show ?thesis
    by (cases "include_instructors \<and> include_students")
       (auto simp: apply_filters_def Let_def keep_mask_iff [abs_def] taut
             split: option.splits sum.splits)
qed

theorem role_filter_or_predicate_witness:
  "apply_filters no_patterns sample_joined None True False False =
     Inr (filter (\<lambda>r. py_lower (role r) \<noteq> ''student'') sample_joined) \<and>
   map enrollmentId (filter (\<lambda>r. py_lower (role r) \<noteq> ''student'') sample_joined) =
     [''_e1_1''] \<and>
   apply_filters no_patterns sample_joined None True True False = Inr sample_joined"
proof -
  have "map enrollmentId (filter (\<lambda>r. py_lower (role r) \<noteq> ''student'') sample_joined) =
     [''_e1_1'']"
    by code_simp
  then show ?thesis
    using role_filter_or_predicate [of no_patterns sample_joined None True False False]
      role_filter_or_predicate [of no_patterns sample_joined None True True False]
    by simp
qed

text \<open>
  C5 (as amended).  \<open>userFullName\<close> and \<open>courseLabel\<close> are computed on the rows of the
  merged frame; \<open>term\<close> is computed earlier, once for each course, when the courses frame
  is built.  The joined frame is nevertheless the one of the reference that joins the
  records first and computes the three derived fields on the surviving rows, and no
  filter reads a derived field: changing the three fields of the rows in any way changes
  neither which rows a filter keeps nor whether it fails.
\<close>

theorem join_then_derive:
  "(case build_dataframes courses users enrollments of
      (courses_df, users_df, enrollments_df) \<Rightarrow>
        join_frames courses_df users_df enrollments_df) =
     reference_join courses users enrollments \<and>
   apply_filters re_compile
       (map (\<lambda>r. r\<lparr>userFullName := f r, courseLabel := g r, term_col := h r\<rparr>) joined_df)
       course_filter include_instructors include_students only_available =
     (case apply_filters re_compile joined_df course_filter include_instructors
             include_students only_available of
        Inl e \<Rightarrow> Inl e
      | Inr rows \<Rightarrow>
          Inr (map (\<lambda>r. r\<lparr>userFullName := f r, courseLabel := g r, term_col := h r\<rparr>) rows))"
proof
  show "(case build_dataframes courses users enrollments of
      (courses_df, users_df, enrollments_df) \<Rightarrow>
        join_frames courses_df users_df enrollments_df) =
     reference_join courses users enrollments"
    by (simp add: build_dataframes_def join_frames_build)
next
  let ?u = "\<lambda>r. r\<lparr>userFullName := f r, courseLabel := g r, term_col := h r\<rparr>"
  have a: "filter (\<lambda>r. courseAvailable r \<and> userAvailable r \<and> enrollmentAvailable r)
             (map ?u xs) =
           map ?u (filter (\<lambda>r. courseAvailable r \<and> userAvailable r \<and> enrollmentAvailable r) xs)"
    for xs by (rule filter_map_upd) simp
  have b: "filter (\<lambda>r. found (py_lower (courseId r)) \<or> found (py_lower (courseName r)))
             (map ?u xs) =
           map ?u (filter (\<lambda>r. found (py_lower (courseId r)) \<or> found (py_lower (courseName r))) xs)"
    for xs found by (rule filter_map_upd) simp
  have c: "filter (keep_mask include_instructors include_students) (map ?u xs) =
           map ?u (filter (keep_mask include_instructors include_students) xs)"
    for xs by (rule filter_map_upd) (simp add: keep_mask_def is_student_def)
  show "apply_filters re_compile (map ?u joined_df)
       course_filter include_instructors include_students only_available =
     (case apply_filters re_compile joined_df course_filter include_instructors
             include_students only_available of
        Inl e \<Rightarrow> Inl e
      | Inr rows \<Rightarrow> Inr (map ?u rows))"
    by (simp add: apply_filters_def a b c split: option.splits)
qed

theorem join_then_derive_witness:
  "reference_join sample_courses sample_users sample_enrollments = sample_joined \<and>
   map term_col sample_joined = [''2025FA'', ''2025FA'', ''2025FA'']"
proof -
  have "map term_col sample_joined = [''2025FA'', ''2025FA'', ''2025FA'']"
    by code_simp
  then show ?thesis
    using join_then_derive [of sample_courses sample_users sample_enrollments]
    by (simp add: sample_joined_def)
qed

text \<open>
  The claim as it was stated fails for \<open>term\<close>: with one course and no user and no
  enrollment the joined frame has no row, and the courses frame built before the join
  has the term of the course already.
\<close>

theorem term_before_join_counterexample:
  "(case build_dataframes [course_cs101] [] [] of
      (courses_df, users_df, enrollments_df) \<Rightarrow>
        map cr_term courses_df = [''2025FA''] \<and>
        join_frames courses_df users_df enrollments_df = [])"
  by code_simp











text \<open>
  C10.  A raw record of any of the three files whose \<open>availability\<close> is absent, is
  \<^verbatim>\<open>null\<close>, or is an object without the key \<open>available\<close> is not refused for that:
  the loader puts \<^verbatim>\<open>{"available": False}\<close> in its place before the model is built, the
  availability of the normalised record validates to false, and the record validates as
  a course, a user or an enrollment whenever its other fields do.
\<close>

theorem absent_availability_is_false:
  "map_of item ''availability'' = None \<or> map_of item ''availability'' = Some JNull \<or>
   (\<exists>a. map_of item ''availability'' = Some (JObj a) \<and> map_of a ''available'' = None) \<longrightarrow>
   (\<exists>item'. normalize_item item = Inr item' \<and>
      availability_field item' = Inr \<lparr>available = False\<rparr> \<and>
      (\<forall>i ci n de.
         str_field [] item ''id'' = Inr i \<and> str_field [] item ''courseId'' = Inr ci \<and>
         str_field [] item ''name'' = Inr n \<and> opt_str_field [] item ''description'' = Inr de \<longrightarrow>
         Course_validate item' =
           Inr \<lparr>c_id = i, c_courseId = ci, c_name = n, c_description = de,
                c_availability = \<lparr>available = False\<rparr>\<rparr>) \<and>
      (\<forall>i un n c.
         str_field [] item ''id'' = Inr i \<and> str_field [] item ''userName'' = Inr un \<and>
         model_field UserName_validate item ''name'' = Inr n \<and>
         model_field Contact_validate item ''contact'' = Inr c \<longrightarrow>
         User_validate item' =
           Inr \<lparr>u_id = i, u_userName = un, u_name = n, u_contact = c,
                u_availability = \<lparr>available = False\<rparr>\<rparr>) \<and>
      (\<forall>i ui ci r.
         str_field [] item ''id'' = Inr i \<and> str_field [] item ''userId'' = Inr ui \<and>
         str_field [] item ''courseId'' = Inr ci \<and> snd (role_field item) = Inr r \<longrightarrow>
         snd (Enrollment_validate item') =
           Inr \<lparr>e_id = i, e_userId = ui, e_courseId = ci, e_role = r,
                e_availability = \<lparr>available = False\<rparr>\<rparr>))"
proof
  assume h: "map_of item ''availability'' = None \<or> map_of item ''availability'' = Some JNull \<or>
   (\<exists>a. map_of item ''availability'' = Some (JObj a) \<and> map_of a ''available'' = None)"
  let ?item' = "AList.update ''availability'' (JObj [(''available'', JBool False)]) item"
  have n: "normalize_item item = Inr ?item'" by (rule normalize_item_absent [OF h])
  have a: "availability_field ?item' = Inr \<lparr>available = False\<rparr>"
    by (simp add: availability_field_def update_conv')
  have s: "str_field [] ?item' k = str_field [] item k" if "k \<noteq> ''availability''" for k
    using that by (rule normalize_item_str_field [OF n])
  have o: "opt_str_field [] ?item' ''description'' = opt_str_field [] item ''description''"
    by (rule normalize_item_opt_str_field [OF n]) simp
  have m: "model_field v ?item' k = model_field v item k" if "k \<noteq> ''availability''" for k v
    using that by (rule normalize_item_model_field [OF n])
  have r: "role_field ?item' = role_field item" by (rule normalize_item_role_field [OF n])
  have c: "Course_validate ?item' =
           Inr \<lparr>c_id = i, c_courseId = ci, c_name = nm, c_description = de,
                c_availability = \<lparr>available = False\<rparr>\<rparr>"
    if "str_field [] item ''id'' = Inr i \<and> str_field [] item ''courseId'' = Inr ci \<and>
         str_field [] item ''name'' = Inr nm \<and> opt_str_field [] item ''description'' = Inr de"
    for i ci nm de using that by (simp add: Course_validate_def a s o)
  have u: "User_validate ?item' =
           Inr \<lparr>u_id = i, u_userName = un, u_name = nm, u_contact = ct,
                u_availability = \<lparr>available = False\<rparr>\<rparr>"
    if "str_field [] item ''id'' = Inr i \<and> str_field [] item ''userName'' = Inr un \<and>
         model_field UserName_validate item ''name'' = Inr nm \<and>
         model_field Contact_validate item ''contact'' = Inr ct"
    for i un nm ct using that by (simp add: User_validate_def a s m)
  have e: "snd (Enrollment_validate ?item') =
           Inr \<lparr>e_id = i, e_userId = ui, e_courseId = ci, e_role = rl,
                e_availability = \<lparr>available = False\<rparr>\<rparr>"
    if "str_field [] item ''id'' = Inr i \<and> str_field [] item ''userId'' = Inr ui \<and>
         str_field [] item ''courseId'' = Inr ci \<and> snd (role_field item) = Inr rl"
    for i ui ci rl using that by (simp add: Enrollment_validate_def a s r)
  from n a c u e show "\<exists>item'. normalize_item item = Inr item' \<and>
      availability_field item' = Inr \<lparr>available = False\<rparr> \<and>
      (\<forall>i ci n de.
         str_field [] item ''id'' = Inr i \<and> str_field [] item ''courseId'' = Inr ci \<and>
         str_field [] item ''name'' = Inr n \<and> opt_str_field [] item ''description'' = Inr de \<longrightarrow>
         Course_validate item' =
           Inr \<lparr>c_id = i, c_courseId = ci, c_name = n, c_description = de,
                c_availability = \<lparr>available = False\<rparr>\<rparr>) \<and>
      (\<forall>i un n c.
         str_field [] item ''id'' = Inr i \<and> str_field [] item ''userName'' = Inr un \<and>
         model_field UserName_validate item ''name'' = Inr n \<and>
         model_field Contact_validate item ''contact'' = Inr c \<longrightarrow>
         User_validate item' =
           Inr \<lparr>u_id = i, u_userName = un, u_name = n, u_contact = c,
                u_availability = \<lparr>available = False\<rparr>\<rparr>) \<and>
      (\<forall>i ui ci r.
         str_field [] item ''id'' = Inr i \<and> str_field [] item ''userId'' = Inr ui \<and>
         str_field [] item ''courseId'' = Inr ci \<and> snd (role_field item) = Inr r \<longrightarrow>
         snd (Enrollment_validate item') =
           Inr \<lparr>e_id = i, e_userId = ui, e_courseId = ci, e_role = r,
                e_availability = \<lparr>available = False\<rparr>\<rparr>)"
    by blast
qed

theorem absent_availability_is_false_witness:
  "map_of raw_course_no_availability ''availability'' = None \<and>
   (\<exists>item'. normalize_item raw_course_no_availability = Inr item' \<and>
      Course_validate item' =
        Inr \<lparr>c_id = ''_c3_1'', c_courseId = ''MATH1-2025FA'', c_name = ''Calculus'',
             c_description = None, c_availability = \<lparr>available = False\<rparr>\<rparr>) \<and>
   load_courses (data_files (Records [raw_course_no_availability]) (Records []) (Records [])) =
     Inr [\<lparr>c_id = ''_c3_1'', c_courseId = ''MATH1-2025FA'', c_name = ''Calculus'',
           c_description = None, c_availability = \<lparr>available = False\<rparr>\<rparr>] \<and>
   map_sum id (map (\<lambda>u. available (u_availability u)))
     (load_users (data_files (Records []) (Records [raw_user_null_availability])
        (Records []))) = Inr [False] \<and>
   map_sum id (map (\<lambda>e. available (e_availability e)))
     (snd (load_enrollments (data_files (Records []) (Records [])
        (Records [raw_enrollment_other_availability])))) = Inr [False]"
proof -
  have h: "map_of raw_course_no_availability ''availability'' = None"
    by (simp add: raw_course_no_availability_def)
  have f: "str_field [] raw_course_no_availability ''id'' = Inr ''_c3_1'' \<and>
           str_field [] raw_course_no_availability ''courseId'' = Inr ''MATH1-2025FA'' \<and>
           str_field [] raw_course_no_availability ''name'' = Inr ''Calculus'' \<and>
           opt_str_field [] raw_course_no_availability ''description'' = Inr None"
    by code_simp
  from absent_availability_is_false [of raw_course_no_availability] h f
  have 1: "\<exists>item'. normalize_item raw_course_no_availability = Inr item' \<and>
      Course_validate item' =
        Inr \<lparr>c_id = ''_c3_1'', c_courseId = ''MATH1-2025FA'', c_name = ''Calculus'',
             c_description = None, c_availability = \<lparr>available = False\<rparr>\<rparr>"
    by blast
  have 2: "load_courses (data_files (Records [raw_course_no_availability]) (Records [])
             (Records [])) =
     Inr [\<lparr>c_id = ''_c3_1'', c_courseId = ''MATH1-2025FA'', c_name = ''Calculus'',
           c_description = None, c_availability = \<lparr>available = False\<rparr>\<rparr>]"
    by code_simp
  have 3: "map_sum id (map (\<lambda>u. available (u_availability u)))
     (load_users (data_files (Records []) (Records [raw_user_null_availability])
        (Records []))) = Inr [False]"
    by code_simp
  have 4: "map_sum id (map (\<lambda>e. available (e_availability e)))
     (snd (load_enrollments (data_files (Records []) (Records [])
        (Records [raw_enrollment_other_availability])))) = Inr [False]"
    by code_simp
  from h 1 2 3 4 show ?thesis by (intro conjI)
qed

end
